theory Spec2Isabelle
  imports Main "HOL-Library.Word" "HOL-Library.Product_Lexorder"
begin

section \<open>Data model\<close>

text \<open>
  The program is the script \<^verbatim>\<open>assets/rename_font.py\<close>. It loads a font through
  the fontTools library, overwrites the stored string of every naming record whose
  \<^verbatim>\<open>nameID\<close> is a key of \<^verbatim>\<open>name_map\<close>, saves the font to the path it was read
  from and prints one line.

  A Python \<^verbatim>\<open>str\<close> is a sequence of Unicode code points, a \<^verbatim>\<open>bytes\<close> object
  a sequence of octets, a path a sequence of components.
\<close>

type_synonym str = "nat list"
type_synonym byte = "8 word"
type_synonym bytes = "byte list"
type_synonym path = "string list"

text \<open>The code points of a source literal made of ASCII characters.\<close>

definition lit :: "string \<Rightarrow> str" where
  "lit s = map of_char s"

text \<open>The exceptions that the statements of the script can raise.\<close>

datatype error =
  FileNotFoundError
  | TTLibError
  | KeyError
  | UnicodeEncodeError
  | UnicodeDecodeError

text \<open>
  A naming record as fontTools presents it: the attributes \<^verbatim>\<open>nameID\<close>,
  \<^verbatim>\<open>platformID\<close>, \<^verbatim>\<open>platEncID\<close>, \<^verbatim>\<open>langID\<close> and \<^verbatim>\<open>string\<close>; the last
  holds the stored octets.
\<close>

record NameRecord =
  nameID :: int
  platformID :: int
  platEncID :: int
  langID :: int
  string :: bytes

text \<open>
  A loaded font: \<^verbatim>\<open>font["name"].names\<close>, the ordered list of naming records
  (\<open>None\<close> when the font has no \<^verbatim>\<open>name\<close> table), and every other table, by
  tag.
\<close>

record TTFont =
  name_names :: "NameRecord list option"
  other_tables :: "(string \<times> bytes) list"

section \<open>The codec \<^verbatim>\<open>utf-16-be\<close>\<close>

text \<open>
  \<^verbatim>\<open>str.encode("utf-16-be")\<close>: a code point of the basic plane that is not a
  surrogate is one 16-bit unit, a code point from \<open>0x10000\<close> to \<open>0x10FFFF\<close> a
  surrogate pair, each unit written high octet first. A lone surrogate raises
  \<^verbatim>\<open>UnicodeEncodeError\<close>; a \<^verbatim>\<open>str\<close> holds no code point above \<open>0x10FFFF\<close>.
\<close>

definition unit_be :: "nat \<Rightarrow> bytes" where
  "unit_be u = [word_of_nat (u div 256), word_of_nat (u mod 256)]"

definition encode_code_point :: "nat \<Rightarrow> error + bytes" where
  "encode_code_point c =
     (if c < 0xD800 \<or> (0xE000 \<le> c \<and> c < 0x10000) then Inr (unit_be c)
      else if 0x10000 \<le> c \<and> c \<le> 0x10FFFF then
        Inr (unit_be (0xD800 + (c - 0x10000) div 1024) @ unit_be (0xDC00 + (c - 0x10000) mod 1024))
      else Inl UnicodeEncodeError)"

fun encode_utf_16_be :: "str \<Rightarrow> error + bytes" where
  "encode_utf_16_be [] = Inr []"
| "encode_utf_16_be (c # cs) =
     (case encode_code_point c of
        Inl e \<Rightarrow> Inl e
      | Inr b \<Rightarrow> (case encode_utf_16_be cs of Inl e \<Rightarrow> Inl e | Inr bs \<Rightarrow> Inr (b @ bs)))"

text \<open>
  \<^verbatim>\<open>bytes.decode("utf-16-be")\<close>, the inverse: two octets make a unit, a high
  surrogate takes the low surrogate that follows it, and truncated data or an
  unpaired surrogate raises \<^verbatim>\<open>UnicodeDecodeError\<close>.
\<close>

definition unit_of :: "byte \<Rightarrow> byte \<Rightarrow> nat" where
  "unit_of h l = unat h * 256 + unat l"

fun decode_utf_16_be :: "bytes \<Rightarrow> error + str" where
  "decode_utf_16_be [] = Inr []"
| "decode_utf_16_be [h] = Inl UnicodeDecodeError"
| "decode_utf_16_be (h # l # bs) =
     (if unit_of h l < 0xD800 \<or> 0xE000 \<le> unit_of h l then
        (case decode_utf_16_be bs of Inl e \<Rightarrow> Inl e | Inr cs \<Rightarrow> Inr (unit_of h l # cs))
      else if unit_of h l < 0xDC00 then
        (case bs of
           h' # l' # bs' \<Rightarrow>
             (if 0xDC00 \<le> unit_of h' l' \<and> unit_of h' l' < 0xE000 then
                (case decode_utf_16_be bs' of
                   Inl e \<Rightarrow> Inl e
                 | Inr cs \<Rightarrow>
                     Inr ((0x10000 + (unit_of h l - 0xD800) * 1024 + (unit_of h' l' - 0xDC00)) # cs))
              else Inl UnicodeDecodeError)
         | _ \<Rightarrow> Inl UnicodeDecodeError)
      else Inl UnicodeDecodeError)"

section \<open>The script\<close>

text \<open>
  \<^verbatim>\<open>FONT_PATH = SCRIPT_DIR / "ashell_icon.ttf"\<close>, where \<^verbatim>\<open>SCRIPT_DIR\<close> is the
  directory of the script, known only when it runs.
\<close>

definition FONT_PATH :: "path \<Rightarrow> path" where
  "FONT_PATH SCRIPT_DIR = SCRIPT_DIR @ [''ashell_icon.ttf'']"

text \<open>The dictionary \<^verbatim>\<open>name_map\<close>.\<close>

definition name_map :: "int \<rightharpoonup> str" where
  "name_map = map_of
     [(1, lit ''Ashell Nerd Font''),
      (2, lit ''Regular''),
      (3, lit ''AshellNerdFont-Regular''),
      (4, lit ''Ashell Nerd Font Regular''),
      (6, lit ''AshellNerdFont-Regular'')]"

text \<open>
  The body of the loop, for one record: when \<^verbatim>\<open>record.nameID in name_map\<close>, the
  attribute \<^verbatim>\<open>string\<close> is assigned \<^verbatim>\<open>name_map[record.nameID].encode("utf-16-be")\<close>;
  no other attribute is written.
\<close>

definition rewrite_record :: "NameRecord \<Rightarrow> error + NameRecord" where
  "rewrite_record record =
     (case name_map (nameID record) of
        None \<Rightarrow> Inr record
      | Some new_name \<Rightarrow>
          (case encode_utf_16_be new_name of
             Inl e \<Rightarrow> Inl e
           | Inr b \<Rightarrow> Inr (record\<lparr>string := b\<rparr>)))"

text \<open>
  \<^verbatim>\<open>for record in font["name"].names\<close>: the records are visited in order and
  updated in place; an exception in the body ends the loop and the script.
\<close>

fun rewrite_names :: "NameRecord list \<Rightarrow> error + NameRecord list" where
  "rewrite_names [] = Inr []"
| "rewrite_names (record # records) =
     (case rewrite_record record of
        Inl e \<Rightarrow> Inl e
      | Inr record' \<Rightarrow>
          (case rewrite_names records of
             Inl e \<Rightarrow> Inl e
           | Inr records' \<Rightarrow> Inr (record' # records')))"

text \<open>
  What the script uses of fontTools and of the file system. The library is not part of
  the repository, so reading a font from the octets of a file (\<open>decompile\<close>, which
  also stands for the loading of the \<^verbatim>\<open>name\<close> table on first access) and
  \<^verbatim>\<open>TTFont.save\<close> are parameters: \<open>save font file fs\<close> returns the exception
  it raised, if any, and the files as it left them.
\<close>

type_synonym files = "path \<rightharpoonup> bytes"

record fontTools =
  decompile :: "bytes \<Rightarrow> error + TTFont"
  save :: "TTFont \<Rightarrow> path \<Rightarrow> files \<Rightarrow> error option \<times> files"

text \<open>
  The files on disk, the lines written to standard output so far, and the code points
  that the encoding of standard output can represent.
\<close>

record world =
  files :: files
  stdout :: "str list"
  stdout_encodes :: "nat \<Rightarrow> bool"

text \<open>
  \<^verbatim>\<open>TTFont(FONT_PATH)\<close> opens the file for reading, which raises
  \<^verbatim>\<open>FileNotFoundError\<close> when the path names no file, and reads the font from it.
\<close>

definition TTFont_init :: "fontTools \<Rightarrow> files \<Rightarrow> path \<Rightarrow> error + TTFont" where
  "TTFont_init lib fs file =
     (case fs file of None \<Rightarrow> Inl FileNotFoundError | Some data \<Rightarrow> decompile lib data)"

text \<open>\<^verbatim>\<open>font["name"].names\<close>; a font without the table raises \<^verbatim>\<open>KeyError\<close>.\<close>

definition getitem_name :: "TTFont \<Rightarrow> error + NameRecord list" where
  "getitem_name font =
     (case name_names font of None \<Rightarrow> Inl KeyError | Some names \<Rightarrow> Inr names)"

text \<open>The line the script prints; its first character is U+2705.\<close>

definition success_message :: str where
  "success_message = 0x2705 # lit '' Font renamed and saved as ashell_icon.ttf''"

text \<open>
  \<^verbatim>\<open>print\<close> encodes the line for standard output and writes it. The stream has the
  error handler \<^verbatim>\<open>strict\<close>, the default: a character that its encoding cannot
  represent raises \<^verbatim>\<open>UnicodeEncodeError\<close>, and nothing is written.
\<close>

definition print :: "str \<Rightarrow> world \<Rightarrow> error + world" where
  "print s w =
     (if list_all (stdout_encodes w) s then Inr (w\<lparr>stdout := stdout w @ [s]\<rparr>)
      else Inl UnicodeEncodeError)"

text \<open>
  The script, top to bottom: load, rewrite, save, print. The result is the exception
  that ended the run (\<open>None\<close> for a run that reached its last line) and the world
  the run left. \<^verbatim>\<open>font.close()\<close> releases the reader and changes nothing here.
\<close>

definition rename_font :: "fontTools \<Rightarrow> path \<Rightarrow> world \<Rightarrow> error option \<times> world" where
  "rename_font lib SCRIPT_DIR w =
     (case TTFont_init lib (files w) (FONT_PATH SCRIPT_DIR) of
        Inl e \<Rightarrow> (Some e, w)
      | Inr font \<Rightarrow>
          (case getitem_name font of
             Inl e \<Rightarrow> (Some e, w)
           | Inr names \<Rightarrow>
               (case rewrite_names names of
                  Inl e \<Rightarrow> (Some e, w)
                | Inr names' \<Rightarrow>
                    (case save lib (font\<lparr>name_names := Some names'\<rparr>) (FONT_PATH SCRIPT_DIR) (files w) of
                       (Some e, fs') \<Rightarrow> (Some e, w\<lparr>files := fs'\<rparr>)
                     | (None, fs') \<Rightarrow>
                         (case print success_message (w\<lparr>files := fs'\<rparr>) of
                            Inl e \<Rightarrow> (Some e, w\<lparr>files := fs'\<rparr>)
                          | Inr w' \<Rightarrow> (None, w'))))))"

text \<open>
  The name table that \<^verbatim>\<open>TTFont(FONT_PATH)\<close> followed by
  \<^verbatim>\<open>font["name"].names\<close> reads from the files of a world.
\<close>

definition loaded_names :: "fontTools \<Rightarrow> path \<Rightarrow> world \<Rightarrow> error + NameRecord list" where
  "loaded_names lib SCRIPT_DIR w =
     (case TTFont_init lib (files w) (FONT_PATH SCRIPT_DIR) of
        Inl e \<Rightarrow> Inl e
      | Inr font \<Rightarrow> getitem_name font)"

section \<open>A sample font and a sample library\<close>

text \<open>
  Concrete data for the runs evaluated below: a Windows record (platform 3, encoding 1,
  language 0x409) and a Macintosh record (platform 1, encoding 0, language 0) with mapped
  identifiers, and a record with identifier 16, which \<^verbatim>\<open>name_map\<close> does not hold.
\<close>

definition sample_names :: "NameRecord list" where
  "sample_names =
     [\<lparr>nameID = 2, platformID = 3, platEncID = 1, langID = 1033,
        string = [0, 66, 0, 111, 0, 108, 0, 100]\<rparr>,
      \<lparr>nameID = 2, platformID = 1, platEncID = 0, langID = 0,
        string = [66, 111, 108, 100]\<rparr>,
      \<lparr>nameID = 16, platformID = 3, platEncID = 1, langID = 1033,
        string = [0, 65, 0, 115, 0, 104, 0, 101, 0, 108, 0, 108]\<rparr>]"

definition sample_names' :: "NameRecord list" where
  "sample_names' =
     [\<lparr>nameID = 2, platformID = 3, platEncID = 1, langID = 1033,
        string = [0, 82, 0, 101, 0, 103, 0, 117, 0, 108, 0, 97, 0, 114]\<rparr>,
      \<lparr>nameID = 2, platformID = 1, platEncID = 0, langID = 0,
        string = [0, 82, 0, 101, 0, 103, 0, 117, 0, 108, 0, 97, 0, 114]\<rparr>,
      \<lparr>nameID = 16, platformID = 3, platEncID = 1, langID = 1033,
        string = [0, 65, 0, 115, 0, 104, 0, 101, 0, 108, 0, 108]\<rparr>]"

text \<open>The rewritten sample table in the order of platform, encoding, language and name.\<close>

definition sample_saved :: "NameRecord list" where
  "sample_saved =
     [\<lparr>nameID = 2, platformID = 1, platEncID = 0, langID = 0,
        string = [0, 82, 0, 101, 0, 103, 0, 117, 0, 108, 0, 97, 0, 114]\<rparr>,
      \<lparr>nameID = 2, platformID = 3, platEncID = 1, langID = 1033,
        string = [0, 82, 0, 101, 0, 103, 0, 117, 0, 108, 0, 97, 0, 114]\<rparr>,
      \<lparr>nameID = 16, platformID = 3, platEncID = 1, langID = 1033,
        string = [0, 65, 0, 115, 0, 104, 0, 101, 0, 108, 0, 108]\<rparr>]"

text \<open>
  A library to run the script with. Its font file is a name table and nothing else:
  each record is written as five 16-bit numbers, high octet first (the platform,
  encoding, language and name identifiers and the length of the string), followed by
  the string. As fontTools does when it compiles a name table, \<open>save\<close> writes the
  records sorted by platform, encoding, language and name identifier, and raises when a
  number does not fit sixteen bits.
\<close>

definition name_key :: "NameRecord \<Rightarrow> int \<times> int \<times> int \<times> int" where
  "name_key r = (platformID r, platEncID r, langID r, nameID r)"

definition fits :: "NameRecord \<Rightarrow> bool" where
  "fits r \<longleftrightarrow>
     0 \<le> platformID r \<and> platformID r < 65536 \<and> 0 \<le> platEncID r \<and> platEncID r < 65536 \<and>
     0 \<le> langID r \<and> langID r < 65536 \<and> 0 \<le> nameID r \<and> nameID r < 65536 \<and>
     length (string r) < 65536"

definition write_record :: "NameRecord \<Rightarrow> bytes" where
  "write_record r =
     unit_be (nat (platformID r)) @ unit_be (nat (platEncID r)) @ unit_be (nat (langID r)) @
     unit_be (nat (nameID r)) @ unit_be (length (string r)) @ string r"

fun write_names :: "NameRecord list \<Rightarrow> bytes" where
  "write_names [] = []"
| "write_names (r # rs) = write_record r @ write_names rs"

function (sequential) read_names :: "bytes \<Rightarrow> NameRecord list option" where
  "read_names [] = Some []"
| "read_names (p # p' # e # e' # l # l' # n # n' # c # c' # rest) =
     (if unit_of c c' \<le> length rest then
        (case read_names (drop (unit_of c c') rest) of
           None \<Rightarrow> None
         | Some rs \<Rightarrow>
             Some (\<lparr>nameID = int (unit_of n n'), platformID = int (unit_of p p'),
                     platEncID = int (unit_of e e'), langID = int (unit_of l l'),
                     string = take (unit_of c c') rest\<rparr> # rs))
      else None)"
| "read_names _ = None"
  by pat_completeness auto
termination
  by (relation "measure length") auto

definition sample_lib :: fontTools where
  "sample_lib =
     \<lparr>decompile = (\<lambda>data.
        case read_names data of
          None \<Rightarrow> Inl TTLibError
        | Some names \<Rightarrow> Inr \<lparr>name_names = Some names, other_tables = []\<rparr>),
      save = (\<lambda>font file fs.
        case name_names font of
          None \<Rightarrow> (Some TTLibError, fs)
        | Some names \<Rightarrow>
            if list_all fits names then (None, fs(file \<mapsto> write_names (sort_key name_key names)))
            else (Some TTLibError, fs))\<rparr>"

text \<open>
  Two encodings of standard output, by the code points they represent: UTF-8 takes
  every code point but the surrogates, ASCII the first 128.
\<close>

definition utf_8 :: "nat \<Rightarrow> bool" where
  "utf_8 c \<longleftrightarrow> c < 0xD800 \<or> (0xE000 \<le> c \<and> c \<le> 0x10FFFF)"

definition ascii :: "nat \<Rightarrow> bool" where
  "ascii c \<longleftrightarrow> c < 128"

text \<open>The world of a sample run: one font file, nothing printed yet.\<close>

definition sample_world :: "NameRecord list \<Rightarrow> (nat \<Rightarrow> bool) \<Rightarrow> world" where
  "sample_world names encodes =
     \<lparr>files = [FONT_PATH [''assets''] \<mapsto> write_names names], stdout = [],
      stdout_encodes = encodes\<rparr>"

section \<open>The codec: decoding inverts encoding\<close>

lemma unit_of_unit_be:
  assumes "u < 65536"
  shows "\<exists>h l. unit_be u = [h, l] \<and> unit_of h l = u"
proof -
  have "u div 256 < 256" using assms by simp
  then have "unat (word_of_nat (u div 256) :: byte) = u div 256"
    by (simp add: unat_of_nat)
  moreover have "unat (word_of_nat (u mod 256) :: byte) = u mod 256"
    by (simp add: unat_of_nat)
  ultimately show ?thesis
    by (simp add: unit_be_def unit_of_def)
qed

lemma decode_unit:
  assumes "unit_of h l < 0xD800 \<or> 0xE000 \<le> unit_of h l" and "decode_utf_16_be bs = Inr cs"
  shows "decode_utf_16_be (h # l # bs) = Inr (unit_of h l # cs)"
  using assms by simp

lemma decode_pair:
  assumes "0xD800 \<le> unit_of h l" "unit_of h l < 0xDC00"
    and "0xDC00 \<le> unit_of h' l'" "unit_of h' l' < 0xE000"
    and "decode_utf_16_be bs = Inr cs"
  shows "decode_utf_16_be (h # l # h' # l' # bs) =
    Inr ((0x10000 + (unit_of h l - 0xD800) * 1024 + (unit_of h' l' - 0xDC00)) # cs)"
  using assms by simp

lemma decode_encode_code_point:
  assumes "encode_code_point c = Inr b" and "decode_utf_16_be bs = Inr cs"
  shows "decode_utf_16_be (b @ bs) = Inr (c # cs)"
proof (cases "c < 0xD800 \<or> (0xE000 \<le> c \<and> c < 0x10000)")
  case True
  then have b: "b = unit_be c" using assms(1) by (simp add: encode_code_point_def)
  from True have "c < 65536" by auto
  then obtain h l where hl: "unit_be c = [h, l]" "unit_of h l = c"
    using unit_of_unit_be by blast
  have "decode_utf_16_be (h # l # bs) = Inr (unit_of h l # cs)"
    using True hl(2) assms(2) by (intro decode_unit) auto
  then show ?thesis by (simp add: b hl)
next
  case False
  with assms(1) have range: "0x10000 \<le> c" "c \<le> 0x10FFFF"
    by (auto simp: encode_code_point_def split: if_splits)
  define v where "v = c - 0x10000"
  have v: "v < 1048576" "c = 0x10000 + v" using range by (auto simp: v_def)
  have b: "b = unit_be (0xD800 + v div 1024) @ unit_be (0xDC00 + v mod 1024)"
    using assms(1) False range by (simp add: encode_code_point_def v_def)
  have "v div 1024 < 1024" using v(1) by simp
  then have hi: "0xD800 + v div 1024 < 65536" "0xD800 + v div 1024 < 0xDC00" by simp_all
  have lo: "0xDC00 + v mod 1024 < 65536" "0xDC00 + v mod 1024 < 0xE000" by simp_all
  obtain h l where hl: "unit_be (0xD800 + v div 1024) = [h, l]" "unit_of h l = 0xD800 + v div 1024"
    using unit_of_unit_be [OF hi(1)] by blast
  obtain h' l' where hl': "unit_be (0xDC00 + v mod 1024) = [h', l']" "unit_of h' l' = 0xDC00 + v mod 1024"
    using unit_of_unit_be [OF lo(1)] by blast
  have "decode_utf_16_be (h # l # h' # l' # bs) =
      Inr ((0x10000 + (unit_of h l - 0xD800) * 1024 + (unit_of h' l' - 0xDC00)) # cs)"
    using hi lo hl(2) hl'(2) assms(2) by (intro decode_pair) simp_all
  moreover have "0x10000 + (unit_of h l - 0xD800) * 1024 + (unit_of h' l' - 0xDC00) = c"
    using v(2) by (simp add: hl(2) hl'(2))
  ultimately show ?thesis by (simp add: b hl hl')
qed

lemma decode_encode_utf_16_be:
  "encode_utf_16_be s = Inr b \<Longrightarrow> decode_utf_16_be b = Inr s"
proof (induction s arbitrary: b)
  case Nil
  then show ?case by simp
next
  case (Cons c cs)
  then obtain b1 b2 where "encode_code_point c = Inr b1" "encode_utf_16_be cs = Inr b2" "b = b1 @ b2"
    by (auto split: sum.splits)
  with Cons.IH show ?case by (simp add: decode_encode_code_point)
qed

text \<open>A literal of ASCII characters always encodes.\<close>

lemma encode_lit: "\<exists>b. encode_utf_16_be (lit s) = Inr b"
proof (induction s)
  case Nil
  then show ?case by (simp add: lit_def)
next
  case (Cons c s)
  have "of_char c < (256::nat)" by simp
  then have "of_char c < (0xD800::nat)" by linarith
  then have "encode_code_point (of_char c) = Inr (unit_be (of_char c))"
    by (simp add: encode_code_point_def)
  with Cons show ?case by (auto simp: lit_def)
qed

section \<open>The dictionary and the loop\<close>

lemma name_map_None: "name_map k = None \<longleftrightarrow> k \<notin> {1, 2, 3, 4, 6}"
  by (simp add: name_map_def)

lemma name_map_Some:
  "name_map k = Some s \<longleftrightarrow>
     k = 1 \<and> s = lit ''Ashell Nerd Font'' \<or>
     k = 2 \<and> s = lit ''Regular'' \<or>
     k = 3 \<and> s = lit ''AshellNerdFont-Regular'' \<or>
     k = 4 \<and> s = lit ''Ashell Nerd Font Regular'' \<or>
     k = 6 \<and> s = lit ''AshellNerdFont-Regular''"
  by (auto simp: name_map_def)

lemma encode_mapped: "name_map k = Some s \<Longrightarrow> \<exists>b. encode_utf_16_be s = Inr b"
  using encode_lit by (auto simp: name_map_Some)

lemma rewrite_record_unmapped:
  "name_map (nameID r) = None \<Longrightarrow> rewrite_record r = Inr r"
  by (simp add: rewrite_record_def)

lemma rewrite_record_mapped:
  "name_map (nameID r) = Some s \<Longrightarrow>
     \<exists>b. encode_utf_16_be s = Inr b \<and> rewrite_record r = Inr (r\<lparr>string := b\<rparr>)"
  using encode_mapped [of "nameID r" s] by (auto simp: rewrite_record_def)

lemma rewrite_record_total: "\<exists>r'. rewrite_record r = Inr r'"
  by (cases "name_map (nameID r)") (auto dest: rewrite_record_mapped rewrite_record_unmapped)

text \<open>The loop never raises, keeps the length, and treats each record by the body alone.\<close>

lemma rewrite_names_total: "\<exists>names'. rewrite_names names = Inr names'"
proof (induction names)
  case Nil
  then show ?case by simp
next
  case (Cons r rs)
  then show ?case using rewrite_record_total [of r] by auto
qed

lemma rewrite_names_length: "rewrite_names names = Inr names' \<Longrightarrow> length names' = length names"
  by (induction names arbitrary: names') (auto split: sum.splits)

lemma rewrite_names_nth:
  "rewrite_names names = Inr names' \<Longrightarrow> i < length names \<Longrightarrow>
     rewrite_record (names ! i) = Inr (names' ! i)"
proof (induction names arbitrary: names' i)
  case Nil
  then show ?case by simp
next
  case (Cons r rs)
  then show ?case by (cases i) (auto split: sum.splits)
qed

lemma rewrite_record_idem: "rewrite_record r = Inr r' \<Longrightarrow> rewrite_record r' = Inr r'"
  by (auto simp: rewrite_record_def split: option.splits sum.splits)

lemma rewrite_names_idem: "rewrite_names names = Inr names' \<Longrightarrow> rewrite_names names' = Inr names'"
  by (induction names arbitrary: names') (auto split: sum.splits dest: rewrite_record_idem)

lemma rewritten_mapped:
  assumes "rewrite_names names = Inr names'" and "i < length names"
    and "name_map (nameID (names ! i)) = Some s"
  shows "encode_utf_16_be s = Inr (string (names' ! i)) \<and>
         names' ! i = (names ! i)\<lparr>string := string (names' ! i)\<rparr>"
proof -
  have "rewrite_record (names ! i) = Inr (names' ! i)"
    using assms(1,2) by (rule rewrite_names_nth)
  moreover obtain b where "encode_utf_16_be s = Inr b"
      "rewrite_record (names ! i) = Inr ((names ! i)\<lparr>string := b\<rparr>)"
    using rewrite_record_mapped [OF assms(3)] by blast
  ultimately have "names' ! i = (names ! i)\<lparr>string := b\<rparr>" by simp
  then have "string (names' ! i) = b" "names' ! i = (names ! i)\<lparr>string := string (names' ! i)\<rparr>"
    by simp_all
  with \<open>encode_utf_16_be s = Inr b\<close> show ?thesis by simp
qed

lemma rewritten_unmapped:
  assumes "rewrite_names names = Inr names'" and "i < length names"
    and "name_map (nameID (names ! i)) = None"
  shows "names' ! i = names ! i"
  using rewrite_names_nth [OF assms(1,2)] rewrite_record_unmapped [OF assms(3)] by simp

lemma rewritten_text:
  assumes "rewrite_names names = Inr names'" and "i < length names"
    and "name_map (nameID (names ! i)) = Some s"
  shows "decode_utf_16_be (string (names' ! i)) = Inr s"
  using rewritten_mapped [OF assms] by (simp add: decode_encode_utf_16_be)

lemma sample_rewrite: "rewrite_names sample_names = Inr sample_names'"
  by (simp add: sample_names_def sample_names'_def rewrite_record_def name_map_def lit_def
      encode_code_point_def unit_be_def)

lemma rewrite_record_old_string:
  "name_map (nameID r) \<noteq> None \<Longrightarrow> rewrite_record (r\<lparr>string := x\<rparr>) = rewrite_record r"
  by (auto simp: rewrite_record_def split: sum.splits)

section \<open>What the rewrite does to the name table\<close>

text \<open>
  Claim C1. Every record whose \<^verbatim>\<open>nameID\<close> is 1, 2, 3, 4 or 6 holds, after the
  loop, the value that \<^verbatim>\<open>name_map\<close> gives for that identifier: "Ashell Nerd Font",
  "Regular", "AshellNerdFont-Regular", "Ashell Nerd Font Regular" and
  "AshellNerdFont-Regular". The stored octets are read as the script wrote them, with
  the codec \<^verbatim>\<open>utf-16-be\<close>. The statement is about every position of every name
  table, whatever the platform, encoding and language identifiers of the record; the
  loop itself never raises.
\<close>

theorem rewritten_text_is_mapped_value:
  "\<exists>names'. rewrite_names names = Inr names' \<and>
     (\<forall>i<length names.
        (nameID (names ! i) = 1 \<longrightarrow>
           decode_utf_16_be (string (names' ! i)) = Inr (lit ''Ashell Nerd Font'')) \<and>
        (nameID (names ! i) = 2 \<longrightarrow>
           decode_utf_16_be (string (names' ! i)) = Inr (lit ''Regular'')) \<and>
        (nameID (names ! i) = 3 \<longrightarrow>
           decode_utf_16_be (string (names' ! i)) = Inr (lit ''AshellNerdFont-Regular'')) \<and>
        (nameID (names ! i) = 4 \<longrightarrow>
           decode_utf_16_be (string (names' ! i)) = Inr (lit ''Ashell Nerd Font Regular'')) \<and>
        (nameID (names ! i) = 6 \<longrightarrow>
           decode_utf_16_be (string (names' ! i)) = Inr (lit ''AshellNerdFont-Regular'')))"
proof -
  obtain names' where run: "rewrite_names names = Inr names'"
    using rewrite_names_total by blast
  have "decode_utf_16_be (string (names' ! i)) = Inr s"
    if "i < length names" "name_map (nameID (names ! i)) = Some s" for i s
    using run that by (rule rewritten_text)
  then show ?thesis using run by (simp add: name_map_Some)
qed

text \<open>
  The sample table holds a Windows record and a Macintosh record with identifier 2:
  both end with the text "Regular".
\<close>

theorem rewritten_text_is_mapped_value_witness:
  "rewrite_names sample_names = Inr sample_names' \<and>
   platformID (sample_names ! 0) = 3 \<and> platformID (sample_names ! 1) = 1 \<and>
   decode_utf_16_be (string (sample_names' ! 0)) = Inr (lit ''Regular'') \<and>
   decode_utf_16_be (string (sample_names' ! 1)) = Inr (lit ''Regular'')"
proof -
  obtain names' where run: "rewrite_names sample_names = Inr names'"
    and dec: "\<forall>i<length sample_names. nameID (sample_names ! i) = 2 \<longrightarrow>
      decode_utf_16_be (string (names' ! i)) = Inr (lit ''Regular'')"
    using rewritten_text_is_mapped_value [of sample_names] by blast
  have eq: "names' = sample_names'" using run sample_rewrite by simp
  have "decode_utf_16_be (string (names' ! 0)) = Inr (lit ''Regular'')"
    using dec [rule_format, of 0] by (simp add: sample_names_def)
  moreover have "decode_utf_16_be (string (names' ! 1)) = Inr (lit ''Regular'')"
    using dec [rule_format, of 1] by (simp add: sample_names_def)
  ultimately show ?thesis using sample_rewrite eq by (simp add: sample_names_def)
qed

text \<open>
  Claim C2. A record whose \<^verbatim>\<open>nameID\<close> is not a key of \<^verbatim>\<open>name_map\<close>, that is
  not one of 1, 2, 3, 4 and 6, holds after the loop the octets it held before.
\<close>

theorem unmapped_bytes_unchanged:
  "\<exists>names'. rewrite_names names = Inr names' \<and>
     (\<forall>i<length names. nameID (names ! i) \<notin> {1, 2, 3, 4, 6} \<longrightarrow>
        string (names' ! i) = string (names ! i))"
proof -
  obtain names' where run: "rewrite_names names = Inr names'"
    using rewrite_names_total by blast
  have "names' ! i = names ! i" if "i < length names" "nameID (names ! i) \<notin> {1, 2, 3, 4, 6}" for i
    using run that by (intro rewritten_unmapped) (simp_all add: name_map_None)
  then show ?thesis using run by simp
qed

text \<open>The record with identifier 16 of the sample table keeps its six characters.\<close>

theorem unmapped_bytes_unchanged_witness:
  "rewrite_names sample_names = Inr sample_names' \<and>
   nameID (sample_names ! 2) = 16 \<and>
   string (sample_names' ! 2) = string (sample_names ! 2) \<and>
   string (sample_names ! 2) = [0, 65, 0, 115, 0, 104, 0, 101, 0, 108, 0, 108]"
proof -
  obtain names' where run: "rewrite_names sample_names = Inr names'"
    and keep: "\<forall>i<length sample_names. nameID (sample_names ! i) \<notin> {1, 2, 3, 4, 6} \<longrightarrow>
      string (names' ! i) = string (sample_names ! i)"
    using unmapped_bytes_unchanged [of sample_names] by blast
  have eq: "names' = sample_names'" using run sample_rewrite by simp
  have "string (names' ! 2) = string (sample_names ! 2)"
    using keep [rule_format, of 2] by (simp add: sample_names_def)
  then show ?thesis using sample_rewrite eq by (simp add: sample_names_def)
qed

text \<open>
  Claim C3. For a record whose \<^verbatim>\<open>nameID\<close> is a key of \<^verbatim>\<open>name_map\<close>, the octets
  stored are the \<^verbatim>\<open>utf-16-be\<close> encoding of the mapped string; the platform and
  encoding identifiers of the record play no part, since the statement holds at every
  position of every table.
\<close>

theorem stored_bytes_are_utf_16_be:
  "\<exists>names'. rewrite_names names = Inr names' \<and>
     (\<forall>i<length names. \<forall>new_name. name_map (nameID (names ! i)) = Some new_name \<longrightarrow>
        encode_utf_16_be new_name = Inr (string (names' ! i)))"
proof -
  obtain names' where run: "rewrite_names names = Inr names'"
    using rewrite_names_total by blast
  have "encode_utf_16_be s = Inr (string (names' ! i))"
    if "i < length names" "name_map (nameID (names ! i)) = Some s" for i s
    using rewritten_mapped [OF run that] by simp
  then show ?thesis using run by simp
qed

text \<open>
  The Windows record (platform 3, encoding 1) and the Macintosh record (platform 1,
  encoding 0) of the sample table receive the same fourteen octets.
\<close>

theorem stored_bytes_are_utf_16_be_witness:
  "rewrite_names sample_names = Inr sample_names' \<and>
   name_map 2 = Some (lit ''Regular'') \<and>
   encode_utf_16_be (lit ''Regular'') = Inr (string (sample_names' ! 0)) \<and>
   encode_utf_16_be (lit ''Regular'') = Inr (string (sample_names' ! 1)) \<and>
   (platformID (sample_names' ! 0), platEncID (sample_names' ! 0)) = (3, 1) \<and>
   (platformID (sample_names' ! 1), platEncID (sample_names' ! 1)) = (1, 0) \<and>
   string (sample_names' ! 1) = [0, 82, 0, 101, 0, 103, 0, 117, 0, 108, 0, 97, 0, 114]"
proof -
  obtain names' where run: "rewrite_names sample_names = Inr names'"
    and enc: "\<forall>i<length sample_names. \<forall>new_name.
      name_map (nameID (sample_names ! i)) = Some new_name \<longrightarrow>
      encode_utf_16_be new_name = Inr (string (names' ! i))"
    using stored_bytes_are_utf_16_be [of sample_names] by blast
  have eq: "names' = sample_names'" using run sample_rewrite by simp
  have m: "name_map 2 = Some (lit ''Regular'')" by (simp add: name_map_def)
  have "encode_utf_16_be (lit ''Regular'') = Inr (string (names' ! 0))"
    using enc [rule_format, of 0 "lit ''Regular''"] m by (simp add: sample_names_def)
  moreover have "encode_utf_16_be (lit ''Regular'') = Inr (string (names' ! 1))"
    using enc [rule_format, of 1 "lit ''Regular''"] m by (simp add: sample_names_def)
  ultimately show ?thesis using sample_rewrite eq m by (simp add: sample_names'_def)
qed

text \<open>
  Claim C8, for the name table that the loop leaves in memory and the script hands to
  \<^verbatim>\<open>font.save\<close>. The loop creates and deletes no record: that table has the length
  of the table that was loaded, and the record at each position keeps its
  \<^verbatim>\<open>nameID\<close>, \<^verbatim>\<open>platformID\<close>, \<^verbatim>\<open>platEncID\<close> and \<^verbatim>\<open>langID\<close>; it is the
  record of the input with, at most, another \<^verbatim>\<open>string\<close>. What the name table of
  the saved file looks like is the library's doing; see the run with the sample library
  below, where the records come back in another order.
\<close>

theorem records_kept_in_place:
  "\<exists>names'. rewrite_names names = Inr names' \<and> length names' = length names \<and>
     (\<forall>i<length names.
        nameID (names' ! i) = nameID (names ! i) \<and>
        platformID (names' ! i) = platformID (names ! i) \<and>
        platEncID (names' ! i) = platEncID (names ! i) \<and>
        langID (names' ! i) = langID (names ! i) \<and>
        names' ! i = (names ! i)\<lparr>string := string (names' ! i)\<rparr>)"
proof -
  obtain names' where run: "rewrite_names names = Inr names'"
    using rewrite_names_total by blast
  have upd: "names' ! i = (names ! i)\<lparr>string := string (names' ! i)\<rparr>" if "i < length names" for i
  proof (cases "name_map (nameID (names ! i))")
    case None
    then show ?thesis using rewritten_unmapped [OF run that] by simp
  next
    case (Some s)
    then show ?thesis using rewritten_mapped [OF run that] by simp
  qed
  have "nameID (names' ! i) = nameID (names ! i) \<and>
        platformID (names' ! i) = platformID (names ! i) \<and>
        platEncID (names' ! i) = platEncID (names ! i) \<and>
        langID (names' ! i) = langID (names ! i) \<and>
        names' ! i = (names ! i)\<lparr>string := string (names' ! i)\<rparr>" if lt: "i < length names" for i
  proof -
    obtain b where "names' ! i = (names ! i)\<lparr>string := b\<rparr>" using upd [OF lt] by blast
    then show ?thesis by simp
  qed
  then show ?thesis using run rewrite_names_length [OF run] by simp
qed

text \<open>The sample table: three records before and after, identifiers in the same order.\<close>

theorem records_kept_in_place_witness:
  "rewrite_names sample_names = Inr sample_names' \<and>
   length sample_names' = 3 \<and> length sample_names = 3 \<and>
   map nameID sample_names' = [2, 2, 16] \<and> map nameID sample_names = [2, 2, 16] \<and>
   map platformID sample_names' = [3, 1, 3] \<and> map platformID sample_names = [3, 1, 3] \<and>
   sample_names' ! 1 = (sample_names ! 1)\<lparr>string := string (sample_names' ! 1)\<rparr>"
proof -
  obtain names' where run: "rewrite_names sample_names = Inr names'"
    and kept: "\<forall>i<length sample_names.
        nameID (names' ! i) = nameID (sample_names ! i) \<and>
        platformID (names' ! i) = platformID (sample_names ! i) \<and>
        platEncID (names' ! i) = platEncID (sample_names ! i) \<and>
        langID (names' ! i) = langID (sample_names ! i) \<and>
        names' ! i = (sample_names ! i)\<lparr>string := string (names' ! i)\<rparr>"
    using records_kept_in_place [of sample_names] by blast
  have eq: "names' = sample_names'" using run sample_rewrite by simp
  have "names' ! 1 = (sample_names ! 1)\<lparr>string := string (names' ! 1)\<rparr>"
    using kept [rule_format, of 1] by (simp add: sample_names_def)
  then show ?thesis using sample_rewrite eq by (simp add: sample_names_def sample_names'_def)
qed

text \<open>
  Claim C7. A name table that holds a record with identifier 1, one with identifier 2
  and one with identifier 6 (in the scenario they hold "Old Family", "Bold" and "OldPS"),
  at any positions, and besides them only records whose identifiers \<^verbatim>\<open>name_map\<close>
  does not hold (identifier 16, say), before, between or after the three: after the loop
  the three records hold "Ashell Nerd Font", "Regular" and "AshellNerdFont-Regular", with
  their other attributes as before, and every other record is the record it was.
\<close>

theorem scenario_three_records:
  assumes "i1 < length names" and "i2 < length names" and "i6 < length names"
    and "nameID (names ! i1) = 1" and "nameID (names ! i2) = 2" and "nameID (names ! i6) = 6"
    and "\<forall>j<length names. j \<notin> {i1, i2, i6} \<longrightarrow> nameID (names ! j) \<notin> {1, 2, 3, 4, 6}"
  shows "\<exists>names' b1 b2 b6.
     rewrite_names names = Inr names' \<and> length names' = length names \<and>
     decode_utf_16_be b1 = Inr (lit ''Ashell Nerd Font'') \<and>
     decode_utf_16_be b2 = Inr (lit ''Regular'') \<and>
     decode_utf_16_be b6 = Inr (lit ''AshellNerdFont-Regular'') \<and>
     names' ! i1 = (names ! i1)\<lparr>string := b1\<rparr> \<and>
     names' ! i2 = (names ! i2)\<lparr>string := b2\<rparr> \<and>
     names' ! i6 = (names ! i6)\<lparr>string := b6\<rparr> \<and>
     (\<forall>j<length names. j \<notin> {i1, i2, i6} \<longrightarrow> names' ! j = names ! j)"
proof -
  obtain names' where run: "rewrite_names names = Inr names'"
    using rewrite_names_total by blast
  have m1: "name_map (nameID (names ! i1)) = Some (lit ''Ashell Nerd Font'')"
    using assms(4) by (simp add: name_map_Some)
  have m2: "name_map (nameID (names ! i2)) = Some (lit ''Regular'')"
    using assms(5) by (simp add: name_map_Some)
  have m6: "name_map (nameID (names ! i6)) = Some (lit ''AshellNerdFont-Regular'')"
    using assms(6) by (simp add: name_map_Some)
  have r1: "names' ! i1 = (names ! i1)\<lparr>string := string (names' ! i1)\<rparr>"
    using rewritten_mapped [OF run assms(1) m1] by simp
  have r2: "names' ! i2 = (names ! i2)\<lparr>string := string (names' ! i2)\<rparr>"
    using rewritten_mapped [OF run assms(2) m2] by simp
  have r6: "names' ! i6 = (names ! i6)\<lparr>string := string (names' ! i6)\<rparr>"
    using rewritten_mapped [OF run assms(3) m6] by simp
  have others: "\<forall>j<length names. j \<notin> {i1, i2, i6} \<longrightarrow> names' ! j = names ! j"
  proof (intro allI impI)
    fix j assume j: "j < length names" "j \<notin> {i1, i2, i6}"
    then have "name_map (nameID (names ! j)) = None"
      using assms(7) by (simp add: name_map_None)
    with run j(1) show "names' ! j = names ! j" by (rule rewritten_unmapped)
  qed
  show ?thesis
    using run rewrite_names_length [OF run]
      rewritten_text [OF run assms(1) m1] rewritten_text [OF run assms(2) m2]
      rewritten_text [OF run assms(3) m6] r1 r2 r6 others
    by blast
qed

text \<open>
  The scenario, octet by octet: "Old Family", "Bold" and "OldPS" in Windows records,
  after a record with identifier 0 and before a record with identifier 16 that holds
  "Ashell".
\<close>

theorem scenario_three_records_witness:
  "rewrite_names
     [\<lparr>nameID = 0, platformID = 3, platEncID = 1, langID = 1033,
        string = [0, 40, 0, 99, 0, 41]\<rparr>,
      \<lparr>nameID = 1, platformID = 3, platEncID = 1, langID = 1033,
        string = [0, 79, 0, 108, 0, 100, 0, 32, 0, 70, 0, 97, 0, 109, 0, 105, 0, 108, 0, 121]\<rparr>,
      \<lparr>nameID = 2, platformID = 3, platEncID = 1, langID = 1033,
        string = [0, 66, 0, 111, 0, 108, 0, 100]\<rparr>,
      \<lparr>nameID = 6, platformID = 3, platEncID = 1, langID = 1033,
        string = [0, 79, 0, 108, 0, 100, 0, 80, 0, 83]\<rparr>,
      \<lparr>nameID = 16, platformID = 3, platEncID = 1, langID = 1033,
        string = [0, 65, 0, 115, 0, 104, 0, 101, 0, 108, 0, 108]\<rparr>] =
   Inr
     [\<lparr>nameID = 0, platformID = 3, platEncID = 1, langID = 1033,
        string = [0, 40, 0, 99, 0, 41]\<rparr>,
      \<lparr>nameID = 1, platformID = 3, platEncID = 1, langID = 1033,
        string = [0, 65, 0, 115, 0, 104, 0, 101, 0, 108, 0, 108, 0, 32, 0, 78, 0, 101, 0, 114,
          0, 100, 0, 32, 0, 70, 0, 111, 0, 110, 0, 116]\<rparr>,
      \<lparr>nameID = 2, platformID = 3, platEncID = 1, langID = 1033,
        string = [0, 82, 0, 101, 0, 103, 0, 117, 0, 108, 0, 97, 0, 114]\<rparr>,
      \<lparr>nameID = 6, platformID = 3, platEncID = 1, langID = 1033,
        string = [0, 65, 0, 115, 0, 104, 0, 101, 0, 108, 0, 108, 0, 78, 0, 101, 0, 114, 0, 100,
          0, 70, 0, 111, 0, 110, 0, 116, 0, 45, 0, 82, 0, 101, 0, 103, 0, 117, 0, 108, 0, 97,
          0, 114]\<rparr>,
      \<lparr>nameID = 16, platformID = 3, platEncID = 1, langID = 1033,
        string = [0, 65, 0, 115, 0, 104, 0, 101, 0, 108, 0, 108]\<rparr>] \<and>
   decode_utf_16_be [0, 65, 0, 115, 0, 104, 0, 101, 0, 108, 0, 108, 0, 32, 0, 78, 0, 101, 0, 114,
          0, 100, 0, 32, 0, 70, 0, 111, 0, 110, 0, 116] = Inr (lit ''Ashell Nerd Font'') \<and>
   decode_utf_16_be [0, 82, 0, 101, 0, 103, 0, 117, 0, 108, 0, 97, 0, 114] = Inr (lit ''Regular'') \<and>
   decode_utf_16_be [0, 65, 0, 115, 0, 104, 0, 101, 0, 108, 0, 108, 0, 78, 0, 101, 0, 114, 0, 100,
          0, 70, 0, 111, 0, 110, 0, 116, 0, 45, 0, 82, 0, 101, 0, 103, 0, 117, 0, 108, 0, 97,
          0, 114] = Inr (lit ''AshellNerdFont-Regular'')"
  (is "rewrite_names ?names = Inr ?names' \<and> _")
proof -
  have others: "\<forall>j<length ?names. j \<notin> {1, 2, 3} \<longrightarrow> nameID (?names ! j) \<notin> {1, 2, 3, 4, 6}"
  proof (intro allI impI)
    fix j :: nat assume "j < length ?names" "j \<notin> {1, 2, 3}"
    then have "j = 0 \<or> j = 4" by auto
    then show "nameID (?names ! j) \<notin> {1, 2, 3, 4, 6}" by auto
  qed
  obtain names' b1 b2 b6 where run: "rewrite_names ?names = Inr names'"
    and dec: "decode_utf_16_be b1 = Inr (lit ''Ashell Nerd Font'')"
      "decode_utf_16_be b2 = Inr (lit ''Regular'')"
      "decode_utf_16_be b6 = Inr (lit ''AshellNerdFont-Regular'')"
    and new: "names' ! 1 = (?names ! 1)\<lparr>string := b1\<rparr>"
      "names' ! 2 = (?names ! 2)\<lparr>string := b2\<rparr>"
      "names' ! 3 = (?names ! 3)\<lparr>string := b6\<rparr>"
    using scenario_three_records [of 1 ?names 2 3, OF _ _ _ _ _ _ others] by auto
  have eval: "rewrite_names ?names = Inr ?names'"
    by (simp add: rewrite_record_def name_map_def lit_def encode_code_point_def unit_be_def)
  then have "names' = ?names'" using run by simp
  then have "b1 = string (?names' ! 1)" "b2 = string (?names' ! 2)" "b6 = string (?names' ! 3)"
    using new by simp_all
  with dec eval show ?thesis by simp
qed

text \<open>
  Claim C10. The octets that a mapped record holds after the loop depend on its
  \<^verbatim>\<open>nameID\<close> alone. Two tables that differ only in the strings of mapped records
  give the same table after the loop, so the same octets in those records; and two
  records with the same mapped identifier, in one table or in two, end with the same
  octets.
\<close>

theorem stored_bytes_depend_on_nameID_only:
  assumes "rewrite_names names1 = Inr names1'" and "rewrite_names names2 = Inr names2'"
  shows "(length names2 = length names1 \<and>
          (\<forall>i<length names1. names2 ! i = names1 ! i \<or>
             nameID (names1 ! i) \<in> {1, 2, 3, 4, 6} \<and>
             names2 ! i = (names1 ! i)\<lparr>string := string (names2 ! i)\<rparr>)
          \<longrightarrow> names2' = names1') \<and>
         (\<forall>i<length names1. \<forall>j<length names2.
            nameID (names1 ! i) \<in> {1, 2, 3, 4, 6} \<and> nameID (names2 ! j) = nameID (names1 ! i)
            \<longrightarrow> string (names2' ! j) = string (names1' ! i))"
proof (intro conjI impI allI)
  assume h: "length names2 = length names1 \<and>
          (\<forall>i<length names1. names2 ! i = names1 ! i \<or>
             nameID (names1 ! i) \<in> {1, 2, 3, 4, 6} \<and>
             names2 ! i = (names1 ! i)\<lparr>string := string (names2 ! i)\<rparr>)"
  show "names2' = names1'"
  proof (rule nth_equalityI)
    show "length names2' = length names1'"
      using h rewrite_names_length [OF assms(1)] rewrite_names_length [OF assms(2)] by simp
  next
    fix i assume "i < length names2'"
    then have i: "i < length names1" "i < length names2"
      using h rewrite_names_length [OF assms(2)] by simp_all
    have "rewrite_record (names2 ! i) = rewrite_record (names1 ! i)"
    proof (cases "names2 ! i = names1 ! i")
      case True
      then show ?thesis by simp
    next
      case False
      with h i(1) have m: "name_map (nameID (names1 ! i)) \<noteq> None"
        and u: "names2 ! i = (names1 ! i)\<lparr>string := string (names2 ! i)\<rparr>"
        by (auto simp: name_map_None)
      show ?thesis using rewrite_record_old_string [OF m, of "string (names2 ! i)"] u by simp
    qed
    then show "names2' ! i = names1' ! i"
      using rewrite_names_nth [OF assms(1) i(1)] rewrite_names_nth [OF assms(2) i(2)] by simp
  qed
next
  fix i j
  assume i: "i < length names1" and j: "j < length names2"
    and k: "nameID (names1 ! i) \<in> {1, 2, 3, 4, 6} \<and> nameID (names2 ! j) = nameID (names1 ! i)"
  then obtain s where s: "name_map (nameID (names1 ! i)) = Some s"
    using name_map_None [of "nameID (names1 ! i)"] by auto
  then have "name_map (nameID (names2 ! j)) = Some s" using k by simp
  then have "encode_utf_16_be s = Inr (string (names2' ! j))"
    using rewritten_mapped [OF assms(2) j] by simp
  moreover have "encode_utf_16_be s = Inr (string (names1' ! i))"
    using rewritten_mapped [OF assms(1) i s] by simp
  ultimately show "string (names2' ! j) = string (names1' ! i)" by simp
qed

text \<open>
  The sample table and its rewritten form differ only in the strings of the two
  records with identifier 2; both runs end in the same table, where the two records
  hold the same octets.
\<close>

theorem stored_bytes_depend_on_nameID_only_witness:
  "rewrite_names sample_names = Inr sample_names' \<and>
   rewrite_names sample_names' = Inr sample_names' \<and>
   sample_names' \<noteq> sample_names \<and>
   nameID (sample_names ! 0) = 2 \<and> nameID (sample_names' ! 1) = 2 \<and>
   string (sample_names ! 0) \<noteq> string (sample_names' ! 1) \<and>
   string (sample_names' ! 1) = string (sample_names' ! 0)"
proof -
  have again: "rewrite_names sample_names' = Inr sample_names'"
    using sample_rewrite by (rule rewrite_names_idem)
  have "\<forall>i<length sample_names. \<forall>j<length sample_names'.
      nameID (sample_names ! i) \<in> {1, 2, 3, 4, 6} \<and>
      nameID (sample_names' ! j) = nameID (sample_names ! i)
      \<longrightarrow> string (sample_names' ! j) = string (sample_names' ! i)"
    using stored_bytes_depend_on_nameID_only [OF sample_rewrite again] by blast
  from this [rule_format, of 0 1]
  have "string (sample_names' ! 1) = string (sample_names' ! 0)"
    by (simp add: sample_names_def sample_names'_def)
  then show ?thesis using sample_rewrite again
    by (simp add: sample_names_def sample_names'_def)
qed

section \<open>The whole script\<close>

text \<open>
  A run that reaches its last line has loaded the font, found its name table, rewritten
  it, saved the font with the rewritten table and printed the message, each without an
  exception; a run that ends in an exception has printed nothing.
\<close>

lemma print_Inr:
  "print s w = Inr w' \<Longrightarrow> w' = w\<lparr>stdout := stdout w @ [s]\<rparr>"
  by (auto simp: print_def split: if_splits)

lemma rename_font_None:
  assumes "rename_font lib SCRIPT_DIR w = (None, w')"
  shows "\<exists>font names names' fs'.
     TTFont_init lib (files w) (FONT_PATH SCRIPT_DIR) = Inr font \<and>
     getitem_name font = Inr names \<and>
     rewrite_names names = Inr names' \<and>
     save lib (font\<lparr>name_names := Some names'\<rparr>) (FONT_PATH SCRIPT_DIR) (files w) = (None, fs') \<and>
     print success_message (w\<lparr>files := fs'\<rparr>) = Inr w'"
  using assms
  by (auto simp: rename_font_def split: sum.splits option.splits prod.splits)

lemma rename_font_Some:
  assumes "rename_font lib SCRIPT_DIR w = (Some e, w')"
  shows "stdout w' = stdout w"
  using assms
  by (auto simp: rename_font_def split: sum.splits option.splits prod.splits)

lemma rename_font_Some_not_all:
  assumes "rename_font lib SCRIPT_DIR w = (Some e, w')"
  shows "\<not> (\<exists>font names names' fs'.
     TTFont_init lib (files w) (FONT_PATH SCRIPT_DIR) = Inr font \<and>
     getitem_name font = Inr names \<and>
     rewrite_names names = Inr names' \<and>
     save lib (font\<lparr>name_names := Some names'\<rparr>) (FONT_PATH SCRIPT_DIR) (files w) = (None, fs') \<and>
     print success_message (w\<lparr>files := fs'\<rparr>) = Inr w')"
  using assms
  by (auto simp: rename_font_def split: sum.splits option.splits prod.splits)

lemma rewrite_names_fixed:
  "rewrite_names names = Inr names' \<Longrightarrow> r \<in> set names' \<Longrightarrow> rewrite_record r = Inr r"
proof (induction names arbitrary: names')
  case Nil
  then show ?case by simp
next
  case (Cons a names)
  then show ?case by (auto split: sum.splits dest: rewrite_record_idem)
qed

lemma rewrite_names_of_fixed:
  "(\<And>r. r \<in> set names \<Longrightarrow> rewrite_record r = Inr r) \<Longrightarrow> rewrite_names names = Inr names"
  by (induction names) simp_all

lemma loaded_names_after_save:
  assumes reads_back: "\<And>font file fs fs'. save lib font file fs = (None, fs') \<Longrightarrow>
      \<exists>data font'. fs' file = Some data \<and> decompile lib data = Inr font' \<and>
        name_names font' = map_option canon (name_names font)"
    and "save lib (font\<lparr>name_names := Some names'\<rparr>) (FONT_PATH SCRIPT_DIR) fs = (None, fs')"
    and "files w' = fs'"
  shows "loaded_names lib SCRIPT_DIR w' = Inr (canon names')"
proof -
  obtain data font' where "fs' (FONT_PATH SCRIPT_DIR) = Some data"
      "decompile lib data = Inr font'" "name_names font' = Some (canon names')"
    using reads_back [OF assms(2)] by auto
  then show ?thesis using assms(3)
    by (simp add: loaded_names_def TTFont_init_def getitem_name_def)
qed

text \<open>
  The sample library: what it writes it reads back, and it writes the records sorted.
\<close>

lemma unit_of_word_of_nat:
  assumes "u < 65536"
  shows "unit_of (word_of_nat (u div 256)) (word_of_nat (u mod 256)) = u"
  using unit_of_unit_be [OF assms] by (simp add: unit_be_def)

lemma read_write_record:
  assumes "fits r"
  shows "read_names (write_record r @ bs) =
    (case read_names bs of None \<Rightarrow> None | Some rs \<Rightarrow> Some (r # rs))"
proof -
  have u: "nat (platformID r) < 65536" "nat (platEncID r) < 65536" "nat (langID r) < 65536"
    "nat (nameID r) < 65536" "length (string r) < 65536"
    using assms unfolding fits_def by linarith+
  have i: "0 \<le> platformID r" "0 \<le> platEncID r" "0 \<le> langID r" "0 \<le> nameID r"
    using assms by (simp_all add: fits_def)
  show ?thesis
    by (simp add: write_record_def unit_be_def unit_of_word_of_nat [OF u(1)]
        unit_of_word_of_nat [OF u(2)] unit_of_word_of_nat [OF u(3)] unit_of_word_of_nat [OF u(4)]
        unit_of_word_of_nat [OF u(5)] i split: option.splits)
qed

lemma read_write_names: "list_all fits names \<Longrightarrow> read_names (write_names names) = Some names"
  by (induction names) (simp_all add: read_write_record)

lemma sample_fits:
  "list_all fits sample_names" "list_all fits sample_names'" "list_all fits sample_saved"
  by (simp_all add: sample_names_def sample_names'_def sample_saved_def fits_def)

lemma sample_sort:
  "sort_key name_key sample_names' = sample_saved"
  "sort_key name_key sample_saved = sample_saved"
  by (simp_all add: sample_names'_def sample_saved_def name_key_def)

lemma sort_key_twice: "sort_key f (sort_key f xs) = sort_key f xs"
  by (rule sort_key_id_if_sorted) (rule sorted_sort_key)

lemma sample_decompile:
  "list_all fits names \<Longrightarrow>
     decompile sample_lib (write_names names) = Inr \<lparr>name_names = Some names, other_tables = []\<rparr>"
  by (simp add: sample_lib_def read_write_names)

lemma sample_save:
  "list_all fits names \<Longrightarrow>
     save sample_lib \<lparr>name_names = Some names, other_tables = tables\<rparr> file fs =
       (None, fs(file \<mapsto> write_names (sort_key name_key names)))"
  by (simp add: sample_lib_def)

lemma sample_lib_reads_back:
  assumes "save sample_lib font file fs = (None, fs')"
  shows "\<exists>data font'. fs' file = Some data \<and> decompile sample_lib data = Inr font' \<and>
        name_names font' = map_option (sort_key name_key) (name_names font)"
proof -
  obtain names where n: "name_names font = Some names" "list_all fits names"
    using assms by (auto simp: sample_lib_def split: option.splits if_splits)
  then have "fs' = fs(file \<mapsto> write_names (sort_key name_key names))"
    using assms by (simp add: sample_lib_def)
  moreover have "list_all fits (sort_key name_key names)"
    using n(2) by (simp add: list_all_iff)
  then have "decompile sample_lib (write_names (sort_key name_key names)) =
      Inr \<lparr>name_names = Some (sort_key name_key names), other_tables = []\<rparr>"
    by (rule sample_decompile)
  ultimately show ?thesis using n(1) by simp
qed

lemma sample_load:
  "list_all fits names \<Longrightarrow>
     TTFont_init sample_lib (files (sample_world names enc)) (FONT_PATH [''assets'']) =
       Inr \<lparr>name_names = Some names, other_tables = []\<rparr>"
  by (simp add: TTFont_init_def sample_world_def sample_decompile)

lemma sample_loaded:
  "list_all fits names \<Longrightarrow>
     loaded_names sample_lib [''assets''] ((sample_world names enc)\<lparr>stdout := out\<rparr>) = Inr names"
  by (simp add: loaded_names_def TTFont_init_def sample_world_def sample_decompile getitem_name_def)

lemma sample_loaded0:
  "list_all fits names \<Longrightarrow>
     loaded_names sample_lib [''assets''] (sample_world names enc) = Inr names"
  by (simp add: loaded_names_def TTFont_init_def sample_world_def sample_decompile getitem_name_def)

lemma success_message_utf_8: "list_all utf_8 success_message"
  by (simp add: success_message_def lit_def utf_8_def)

lemma success_message_ascii: "\<not> list_all ascii success_message"
  by (simp add: success_message_def ascii_def)

lemma sample_first:
  "rename_font sample_lib [''assets''] (sample_world sample_names utf_8) =
     (None, (sample_world sample_saved utf_8)\<lparr>stdout := [success_message]\<rparr>)"
  by (simp add: rename_font_def sample_load sample_fits getitem_name_def sample_rewrite
      sample_save sample_sort print_def success_message_utf_8)
     (simp add: sample_world_def success_message_utf_8 success_message_ascii)

lemma sample_second:
  "rename_font sample_lib [''assets'']
       ((sample_world sample_saved utf_8)\<lparr>stdout := [success_message]\<rparr>) =
     (None, (sample_world sample_saved utf_8)\<lparr>stdout := [success_message, success_message]\<rparr>)"
proof -
  have "rewrite_names sample_saved = Inr sample_saved"
    by (simp add: sample_saved_def rewrite_record_def name_map_def lit_def
      encode_code_point_def unit_be_def)
  moreover have "TTFont_init sample_lib
      (files ((sample_world sample_saved utf_8)\<lparr>stdout := [success_message]\<rparr>))
      (FONT_PATH [''assets'']) = Inr \<lparr>name_names = Some sample_saved, other_tables = []\<rparr>"
    using sample_load [OF sample_fits(3), of utf_8] by simp
  ultimately show ?thesis
    by (simp add: rename_font_def getitem_name_def sample_save sample_fits sample_sort print_def
        success_message_utf_8)
      (simp add: sample_world_def success_message_utf_8 success_message_ascii)
qed

lemma sample_ascii:
  "rename_font sample_lib [''assets''] (sample_world sample_names ascii) =
     (Some UnicodeEncodeError, sample_world sample_saved ascii)"
  by (simp add: rename_font_def sample_load sample_fits getitem_name_def sample_rewrite
      sample_save sample_sort print_def success_message_ascii)
     (simp add: sample_world_def success_message_utf_8 success_message_ascii)

lemma sample_no_font:
  "rename_font sample_lib [''assets'']
     \<lparr>files = [FONT_PATH [''assets''] \<mapsto> [7]], stdout = [], stdout_encodes = utf_8\<rparr> =
   (Some TTLibError, \<lparr>files = [FONT_PATH [''assets''] \<mapsto> [7]], stdout = [], stdout_encodes = utf_8\<rparr>)"
  by (simp add: rename_font_def TTFont_init_def sample_lib_def)

text \<open>
  Claim C4. Running the script twice in succession leaves the name table that running
  it once leaves. The second run reads what the first run saved, and what lies between
  \<^verbatim>\<open>font.save\<close> and the next \<^verbatim>\<open>TTFont(FONT_PATH)\<close> is the library's: \<open>canon\<close>
  stands for what saving and reading back does to a name table. It may reorder or drop
  records (fontTools writes them sorted), but it returns records of the table it was
  given, and a table that has been through it comes back as it is. Both runs are taken
  to reach their last line.
\<close>

theorem rename_font_twice:
  assumes reads_back: "\<And>font file fs fs'. save lib font file fs = (None, fs') \<Longrightarrow>
      \<exists>data font'. fs' file = Some data \<and> decompile lib data = Inr font' \<and>
        name_names font' = map_option canon (name_names font)"
    and canon_records: "\<And>names. set (canon names) \<subseteq> set names"
    and canon_canon: "\<And>names. canon (canon names) = canon names"
    and first: "rename_font lib SCRIPT_DIR w = (None, w1)"
    and second: "rename_font lib SCRIPT_DIR w1 = (None, w2)"
  shows "loaded_names lib SCRIPT_DIR w2 = loaded_names lib SCRIPT_DIR w1"
proof -
  obtain font names names' fs1 where run1: "rewrite_names names = Inr names'"
    "save lib (font\<lparr>name_names := Some names'\<rparr>) (FONT_PATH SCRIPT_DIR) (files w) = (None, fs1)"
    "print success_message (w\<lparr>files := fs1\<rparr>) = Inr w1"
    using rename_font_None [OF first] by blast
  have f1: "files w1 = fs1" using print_Inr [OF run1(3)] by simp
  have l1: "loaded_names lib SCRIPT_DIR w1 = Inr (canon names')"
    using reads_back run1(2) f1 by (rule loaded_names_after_save)
  obtain font1 names1 names1' fs2 where run2:
    "TTFont_init lib (files w1) (FONT_PATH SCRIPT_DIR) = Inr font1"
    "getitem_name font1 = Inr names1"
    "rewrite_names names1 = Inr names1'"
    "save lib (font1\<lparr>name_names := Some names1'\<rparr>) (FONT_PATH SCRIPT_DIR) (files w1) = (None, fs2)"
    "print success_message (w1\<lparr>files := fs2\<rparr>) = Inr w2"
    using rename_font_None [OF second] by blast
  have f2: "files w2 = fs2" using print_Inr [OF run2(5)] by simp
  have n1: "names1 = canon names'" using l1 run2(1,2) by (simp add: loaded_names_def)
  have "rewrite_record r = Inr r" if "r \<in> set names1" for r
  proof -
    from that have "r \<in> set names'" using canon_records [of names'] n1 by auto
    with run1(1) show ?thesis by (rule rewrite_names_fixed)
  qed
  then have "rewrite_names names1 = Inr names1" by (rule rewrite_names_of_fixed)
  then have "names1' = canon names'" using run2(3) n1 by simp
  moreover have "loaded_names lib SCRIPT_DIR w2 = Inr (canon names1')"
    using reads_back run2(4) f2 by (rule loaded_names_after_save)
  ultimately show ?thesis using l1 canon_canon by simp
qed

text \<open>
  With the sample library, whose \<open>canon\<close> is the sorting: the first run reads the
  sample table and saves it rewritten, the file holds it sorted; the second run saves
  the same file again, and the name table read back is the same after either.
\<close>

theorem rename_font_twice_witness:
  "rename_font sample_lib [''assets''] (sample_world sample_names utf_8) =
     (None, (sample_world sample_saved utf_8)\<lparr>stdout := [success_message]\<rparr>) \<and>
   rename_font sample_lib [''assets'']
       ((sample_world sample_saved utf_8)\<lparr>stdout := [success_message]\<rparr>) =
     (None, (sample_world sample_saved utf_8)\<lparr>stdout := [success_message, success_message]\<rparr>) \<and>
   loaded_names sample_lib [''assets''] (sample_world sample_names utf_8) = Inr sample_names \<and>
   loaded_names sample_lib [''assets'']
       ((sample_world sample_saved utf_8)\<lparr>stdout := [success_message]\<rparr>) = Inr sample_saved \<and>
   loaded_names sample_lib [''assets'']
       ((sample_world sample_saved utf_8)\<lparr>stdout := [success_message, success_message]\<rparr>) =
     loaded_names sample_lib [''assets'']
       ((sample_world sample_saved utf_8)\<lparr>stdout := [success_message]\<rparr>)"
proof -
  have records: "set (sort_key name_key names) \<subseteq> set names" for names
    by simp
  have "loaded_names sample_lib [''assets'']
       ((sample_world sample_saved utf_8)\<lparr>stdout := [success_message, success_message]\<rparr>) =
     loaded_names sample_lib [''assets'']
       ((sample_world sample_saved utf_8)\<lparr>stdout := [success_message]\<rparr>)"
    using sample_lib_reads_back records sort_key_twice sample_first sample_second
    by (rule rename_font_twice [where canon = "sort_key name_key"])
  then show ?thesis
    using sample_first sample_second sample_loaded0 [OF sample_fits(1)]
      sample_loaded [OF sample_fits(3)]
    by simp
qed

text \<open>
  Claim C6. When \<^verbatim>\<open>FONT_PATH\<close> names no file, the run ends with the exception of
  the first statement, \<^verbatim>\<open>TTFont(FONT_PATH)\<close>, and the world is the one it started
  in: no file was written and nothing was printed.
\<close>

theorem missing_file_fails_before_write:
  assumes "files w (FONT_PATH SCRIPT_DIR) = None"
  shows "rename_font lib SCRIPT_DIR w = (Some FileNotFoundError, w)"
  using assms by (simp add: rename_font_def TTFont_init_def)

text \<open>A run in a world without any file.\<close>

theorem missing_file_fails_before_write_witness:
  "files \<lparr>files = Map.empty, stdout = [], stdout_encodes = utf_8\<rparr> (FONT_PATH [''assets'']) = None \<and>
   rename_font sample_lib [''assets''] \<lparr>files = Map.empty, stdout = [], stdout_encodes = utf_8\<rparr> =
     (Some FileNotFoundError, \<lparr>files = Map.empty, stdout = [], stdout_encodes = utf_8\<rparr>)"
proof -
  have none: "files \<lparr>files = Map.empty, stdout = [], stdout_encodes = utf_8\<rparr>
      (FONT_PATH [''assets'']) = None"
    by simp
  from missing_file_fails_before_write [OF none, of sample_lib] none show ?thesis
    by simp
qed

text \<open>
  Claim C9, with the exception that \<^verbatim>\<open>print\<close> itself can raise. The success
  message is printed at most once in a run, and only to the world that \<^verbatim>\<open>font.save\<close>
  left: it is printed once when the run reaches its last line, which is when loading,
  the look-up of the name table, the rewrite, \<^verbatim>\<open>font.save\<close> and \<^verbatim>\<open>print\<close> all
  returned, and it is not printed when any of them raised.
\<close>

theorem success_message_after_print:
  assumes "rename_font lib SCRIPT_DIR w = (r, w')"
  shows "stdout w' = stdout w @ (if r = None then [success_message] else []) \<and>
    (r = None \<longleftrightarrow>
      (\<exists>font names names' fs'.
         TTFont_init lib (files w) (FONT_PATH SCRIPT_DIR) = Inr font \<and>
         getitem_name font = Inr names \<and>
         rewrite_names names = Inr names' \<and>
         save lib (font\<lparr>name_names := Some names'\<rparr>) (FONT_PATH SCRIPT_DIR) (files w) = (None, fs') \<and>
         print success_message (w\<lparr>files := fs'\<rparr>) = Inr w'))"
proof (cases r)
  case None
  then have *: "rename_font lib SCRIPT_DIR w = (None, w')" using assms by simp
  obtain fs' where "print success_message (w\<lparr>files := fs'\<rparr>) = Inr w'"
    using rename_font_None [OF *] by blast
  then have "stdout w' = stdout w @ [success_message]" using print_Inr by fastforce
  then show ?thesis using rename_font_None [OF *] None by simp
next
  case (Some e)
  then have *: "rename_font lib SCRIPT_DIR w = (Some e, w')" using assms by simp
  show ?thesis using rename_font_Some [OF *] rename_font_Some_not_all [OF *] Some by simp
qed

text \<open>
  With the sample library and a standard output in UTF-8: on the sample font the run
  prints the message once; on a file that is no font the run ends in
  \<^verbatim>\<open>TTLibError\<close> and prints nothing.
\<close>

theorem success_message_after_print_witness:
  "rename_font sample_lib [''assets''] (sample_world sample_names utf_8) =
     (None, (sample_world sample_saved utf_8)\<lparr>stdout := [success_message]\<rparr>) \<and>
   stdout (sample_world sample_names utf_8) = [] \<and>
   stdout ((sample_world sample_saved utf_8)\<lparr>stdout := [success_message]\<rparr>) = [success_message] \<and>
   rename_font sample_lib [''assets'']
     \<lparr>files = [FONT_PATH [''assets''] \<mapsto> [7]], stdout = [], stdout_encodes = utf_8\<rparr> =
   (Some TTLibError, \<lparr>files = [FONT_PATH [''assets''] \<mapsto> [7]], stdout = [], stdout_encodes = utf_8\<rparr>)"
proof -
  have "stdout ((sample_world sample_saved utf_8)\<lparr>stdout := [success_message]\<rparr>) =
      stdout (sample_world sample_names utf_8) @
        (if (None :: error option) = None then [success_message] else [])"
    using success_message_after_print [OF sample_first] by blast
  moreover have "stdout (sample_world names enc) = []" for names enc
    by (simp add: sample_world_def)
  ultimately show ?thesis using sample_first sample_no_font by simp
qed

text \<open>
  Claim C9 as it is worded, with no exception for \<^verbatim>\<open>print\<close>, fails: when standard
  output is ASCII, loading, rewriting and saving all return and the file is written,
  but the message has the character U+2705, \<^verbatim>\<open>print\<close> raises
  \<^verbatim>\<open>UnicodeEncodeError\<close> and nothing is printed.
\<close>

theorem saved_but_not_printed:
  "TTFont_init sample_lib (files (sample_world sample_names ascii)) (FONT_PATH [''assets'']) =
     Inr \<lparr>name_names = Some sample_names, other_tables = []\<rparr> \<and>
   getitem_name \<lparr>name_names = Some sample_names, other_tables = []\<rparr> = Inr sample_names \<and>
   rewrite_names sample_names = Inr sample_names' \<and>
   save sample_lib \<lparr>name_names = Some sample_names', other_tables = []\<rparr>
       (FONT_PATH [''assets'']) (files (sample_world sample_names ascii)) =
     (None, files (sample_world sample_saved ascii)) \<and>
   rename_font sample_lib [''assets''] (sample_world sample_names ascii) =
     (Some UnicodeEncodeError, sample_world sample_saved ascii) \<and>
   stdout (sample_world sample_saved ascii) = []"
proof -
  have "save sample_lib \<lparr>name_names = Some sample_names', other_tables = []\<rparr>
       (FONT_PATH [''assets'']) (files (sample_world sample_names ascii)) =
     (None, files (sample_world sample_saved ascii))"
    by (simp add: sample_save sample_fits sample_sort) (simp add: sample_world_def)
  moreover have "stdout (sample_world sample_saved ascii) = []"
    by (simp add: sample_world_def)
  ultimately show ?thesis
    using sample_load [OF sample_fits(1), of ascii] sample_rewrite sample_ascii
    by (simp add: getitem_name_def)
qed

text \<open>
  Claim C8 as it is worded, for the name table after the run, fails: the sample table
  has its Windows record first; the run saves it, and the table of the saved file has
  the Macintosh record first.
\<close>

theorem records_reordered_by_save:
  "loaded_names sample_lib [''assets''] (sample_world sample_names utf_8) = Inr sample_names \<and>
   rename_font sample_lib [''assets''] (sample_world sample_names utf_8) =
     (None, (sample_world sample_saved utf_8)\<lparr>stdout := [success_message]\<rparr>) \<and>
   loaded_names sample_lib [''assets'']
       ((sample_world sample_saved utf_8)\<lparr>stdout := [success_message]\<rparr>) = Inr sample_saved \<and>
   map platformID sample_names = [3, 1, 3] \<and>
   map platformID sample_saved = [1, 3, 3]"
  using sample_first sample_loaded0 [OF sample_fits(1)] sample_loaded [OF sample_fits(3)]
  by (simp add: sample_names_def sample_saved_def)

end
